theory Spec2Isabelle
  imports Main "HOL-Library.AList"
begin

section \<open>Errors\<close>

text \<open>
  Go's \<open>error\<close> values. \<open>ErrInvalidSession\<close> is the sentinel of
  \<open>session_middleware.go\<close>, \<open>ErrSessionNotFound\<close> the one the session provider's test
  expects, the two transaction errors are those of \<open>db/context.go\<close>. \<open>Wrapped\<close> is an
  error that wraps another one, so that \<open>errors.Is\<close> has its chain to walk.
\<close>

datatype error =
    ErrInvalidSession
  | ErrSessionNotFound
  | ErrDatabaseTxDidBegin
  | ErrDatabaseTxDidNotBegin
  | ErrOther string
  | Wrapped string error

fun errors_Is :: "error \<Rightarrow> error \<Rightarrow> bool" where
  "errors_Is (Wrapped msg e) target = (Wrapped msg e = target \<or> errors_Is e target)"
| "errors_Is e target = (e = target)"

text \<open>An \<open>error\<close> interface value is \<open>None\<close> for \<open>nil\<close>; \<open>errors.Is(nil, target)\<close> is false.\<close>

definition is_err :: "error option \<Rightarrow> error \<Rightarrow> bool" where
  "is_err err target = (case err of None \<Rightarrow> False | Some e \<Rightarrow> errors_Is e target)"

section \<open>The resolution middleware (\<open>pkg/auth/dependency/auth/session_middleware.go\<close>)\<close>

subsection \<open>Data\<close>

text \<open>
  \<open>AuthSession\<close> is an interface; the middleware reads \<open>AuthnAttrs().UserID\<close> and
  \<open>GetAccessInfo().LastAccess\<close> of it and nothing else. The access event type \<open>'e\<close>
  and the user record type \<open>'u\<close> (\<open>authinfo.AuthInfo\<close>) stay abstract.
\<close>

record 'e AuthSession =
  AuthnAttrs_UserID :: string
  AccessInfo_LastAccess :: 'e

datatype resolver_role = IDPSession | AccessTokenSession

datatype 'e call =
    CallBeginTx
  | CallEndTx
  | CallResolve resolver_role
  | CallGetAuth string
  | CallRecordAccess "'e AuthSession" 'e

text \<open>
  What a request can change: the response writer \<open>rw\<close> (a resolver may rewrite the
  response), the transaction of the \<open>dbContext\<close> (\<open>tx_open\<close> is \<open>container.tx != nil\<close>),
  and the Access Event Store. \<open>calls\<close> logs, in order, every call the middleware makes
  to a collaborator. \<open>BeginTxx_err\<close>, \<open>Commit_err\<close> and \<open>Rollback_err\<close> are what the
  database answers to \<open>BeginTxx\<close>, \<open>Commit\<close> and \<open>Rollback\<close> (\<open>None\<close> is success).
\<close>

record ('e, 'w) world =
  rw :: 'w
  tx_open :: bool
  BeginTxx_err :: "error option"
  Commit_err :: "error option"
  Rollback_err :: "error option"
  AccessEventStore :: "('e AuthSession \<times> 'e) list"
  calls :: "'e call list"

text \<open>
  \<open>Resolve(rw, r)\<close>: reads the request, may write the response, returns
  \<open>(AuthSession, error)\<close>. Both resolver fields of the middleware are taken to be set.
\<close>

type_synonym ('e, 'q, 'w) SessionResolver =
  "'w \<Rightarrow> 'q \<Rightarrow> ('e AuthSession option \<times> error option) \<times> 'w"

text \<open>
  The \<open>Middleware\<close> struct. Its collaborators are injected, so they are fields here
  too: \<open>AccessEvents_RecordAccess s ev\<close> acts on the Access Event Store and returns an
  error or \<open>nil\<close>; \<open>AuthInfoStore_GetAuth id u\<close> fills the record \<open>u\<close> it is handed
  and returns an error or \<open>nil\<close>; \<open>AuthInfo_zero\<close> is \<open>authinfo.AuthInfo{}\<close>. The
  \<open>TxContext\<close> field is the transaction state of the world.
\<close>

record ('e, 'u, 'q, 'w) Middleware =
  IDPSessionResolver :: "('e, 'q, 'w) SessionResolver"
  AccessTokenSessionResolver :: "('e, 'q, 'w) SessionResolver"
  AccessEvents_RecordAccess ::
    "'e AuthSession \<Rightarrow> 'e \<Rightarrow> ('e AuthSession \<times> 'e) list
       \<Rightarrow> error option \<times> ('e AuthSession \<times> 'e) list"
  AuthInfoStore_GetAuth :: "string \<Rightarrow> 'u \<Rightarrow> error option \<times> 'u"
  AuthInfo_zero :: 'u
  Time_NowUTC :: int

text \<open>
  What \<open>Handle\<close> attaches to the request's context before the downstream handler runs:
  nothing, \<open>authn.WithInvalidAuthn\<close>, or \<open>authn.WithAuthn(ctx, s, u.ToUserInfo(now))\<close>.
\<close>

datatype ('e, 'u) authn =
    NoAuthn
  | InvalidAuthn
  | Authn "'e AuthSession" 'u int

subsection \<open>\<open>Middleware.resolveSession\<close>\<close>

text \<open>
  The \<open>for\<close> loop over the resolvers, with the flag \<open>isInvalid\<close>. The three branches are
  in the order of the source: \<open>errors.Is(err, ErrInvalidSession)\<close>, then \<open>err != nil\<close>,
  then \<open>session != nil\<close>.
\<close>

fun resolveLoop ::
  "(resolver_role \<times> ('e, 'q, 'w) SessionResolver) list \<Rightarrow> 'q \<Rightarrow> bool \<Rightarrow> ('e, 'w) world
     \<Rightarrow> ('e AuthSession option \<times> error option) \<times> ('e, 'w) world" where
  "resolveLoop [] r isInvalid w =
     (if isInvalid then ((None, Some ErrInvalidSession), w) else ((None, None), w))"
| "resolveLoop (rv # rest) r isInvalid w =
     (case snd rv (rw w) r of ((session, err), rw') \<Rightarrow>
        (let w' = w\<lparr>rw := rw', calls := calls w @ [CallResolve (fst rv)]\<rparr> in
         if is_err err ErrInvalidSession then resolveLoop rest r True w'
         else if err \<noteq> None then ((None, err), w')
         else if session \<noteq> None then ((session, None), w')
         else resolveLoop rest r isInvalid w'))"

definition resolveSession ::
  "('e, 'u, 'q, 'w) Middleware \<Rightarrow> 'q \<Rightarrow> ('e, 'w) world
     \<Rightarrow> ('e AuthSession option \<times> error option) \<times> ('e, 'w) world" where
  "resolveSession m r w =
     resolveLoop [(IDPSession, IDPSessionResolver m),
                  (AccessTokenSession, AccessTokenSessionResolver m)] r False w"

subsection \<open>The transaction of \<open>db/context.go\<close>\<close>

text \<open>
  \<open>dbContext.BeginTx\<close>, \<open>dbContext.CommitTx\<close> and \<open>dbContext.RollbackTx\<close>. The
  database is taken to be open (\<open>lazydb\<close> panics when the pool cannot open it).
\<close>

definition BeginTx :: "('e, 'w) world \<Rightarrow> error option \<times> ('e, 'w) world" where
  "BeginTx w =
     (if tx_open w then (Some ErrDatabaseTxDidBegin, w)
      else (case BeginTxx_err w of
              Some e \<Rightarrow> (Some e, w)
            | None \<Rightarrow> (None, w\<lparr>tx_open := True\<rparr>)))"

definition CommitTx :: "('e, 'w) world \<Rightarrow> error option \<times> ('e, 'w) world" where
  "CommitTx w =
     (if \<not> tx_open w then (Some ErrDatabaseTxDidNotBegin, w)
      else (case Commit_err w of
              None \<Rightarrow> (None, w\<lparr>tx_open := False\<rparr>)
            | Some e \<Rightarrow> (Some e, w)))"

definition RollbackTx :: "('e, 'w) world \<Rightarrow> error option \<times> ('e, 'w) world" where
  "RollbackTx w =
     (if \<not> tx_open w then (Some ErrDatabaseTxDidNotBegin, w)
      else (case Rollback_err w of
              None \<Rightarrow> (None, w\<lparr>tx_open := False\<rparr>)
            | Some e \<Rightarrow> (Some e, w)))"

text \<open>
  \<open>db.EndTx\<close> and \<open>db.WithTx\<close>: a failed callback rolls the transaction back (an error
  of the rollback is logged and dropped) and its error is the result; after a successful
  callback the result is that of the commit. The variables the closure \<open>do\<close> captures and
  assigns are its second result, \<open>init\<close> their values before. The log of calls notes
  where the transaction is begun and where it is ended.
\<close>

definition EndTx :: "error option \<Rightarrow> ('e, 'w) world \<Rightarrow> error option \<times> ('e, 'w) world" where
  "EndTx err w =
     (case err of
        Some e \<Rightarrow> (Some e, snd (RollbackTx w))
      | None \<Rightarrow> CommitTx w)"

definition WithTx ::
  "(('e, 'w) world \<Rightarrow> (error option \<times> 'a) \<times> ('e, 'w) world) \<Rightarrow> 'a \<Rightarrow> ('e, 'w) world
     \<Rightarrow> (error option \<times> 'a) \<times> ('e, 'w) world" where
  "WithTx do init w =
     (case BeginTx (w\<lparr>calls := calls w @ [CallBeginTx]\<rparr>) of
        (Some e, w1) \<Rightarrow> ((Some e, init), w1)
      | (None, w1) \<Rightarrow>
          (case do w1 of
             ((err, vars), w2) \<Rightarrow>
               (case EndTx err (w2\<lparr>calls := calls w2 @ [CallEndTx]\<rparr>) of
                  (err', w3) \<Rightarrow> ((err', vars), w3))))"

text \<open>
  Modelled from the spec: \<open>db.ReadOnly\<close> is called by \<open>Middleware.resolve\<close> and is not
  part of the sources. The spec calls it a read-scoped transaction wrapper
  (\<open>WithReadOnlyTx(fn)\<close>) whose transaction is read-only; it is modelled on its sibling
  \<open>db.WithTx\<close>: \<open>BeginTx\<close>, returning its error without running the callback; then the
  callback; then the end of the transaction, which for a read-only scope is
  \<open>RollbackTx\<close> whatever the callback returned; the callback's error is the result.
\<close>

definition ReadOnly ::
  "(('e, 'w) world \<Rightarrow> (error option \<times> 'a) \<times> ('e, 'w) world) \<Rightarrow> 'a \<Rightarrow> ('e, 'w) world
     \<Rightarrow> (error option \<times> 'a) \<times> ('e, 'w) world" where
  "ReadOnly do init w =
     (case BeginTx (w\<lparr>calls := calls w @ [CallBeginTx]\<rparr>) of
        (Some e, w1) \<Rightarrow> ((Some e, init), w1)
      | (None, w1) \<Rightarrow>
          (case do w1 of
             (res, w2) \<Rightarrow> (res, snd (RollbackTx (w2\<lparr>calls := calls w2 @ [CallEndTx]\<rparr>)))))"

subsection \<open>\<open>Middleware.resolve\<close> and \<open>Middleware.Handle\<close>\<close>

text \<open>
  The closure that \<open>resolve\<close> hands to \<open>db.ReadOnly\<close>. It assigns the named results
  \<open>session\<close> and \<open>user\<close> of \<open>resolve\<close> and returns \<open>err\<close>.
\<close>

definition resolve_body ::
  "('e, 'u, 'q, 'w) Middleware \<Rightarrow> 'q \<Rightarrow> ('e, 'w) world
     \<Rightarrow> (error option \<times> 'e AuthSession option \<times> 'u option) \<times> ('e, 'w) world" where
  "resolve_body m r w =
     (case resolveSession m r w of
        ((session, err), w1) \<Rightarrow>
          if err \<noteq> None then ((err, session, None), w1)
          else (case session of
                  None \<Rightarrow> ((None, None, None), w1)
                | Some s \<Rightarrow>
                    (case AuthInfoStore_GetAuth m (AuthnAttrs_UserID s) (AuthInfo_zero m) of
                       (gerr, u) \<Rightarrow>
                         (let w2 = w1\<lparr>calls := calls w1 @ [CallGetAuth (AuthnAttrs_UserID s)]\<rparr>
                          in if gerr \<noteq> None then ((gerr, Some s, Some u), w2)
                             else (let event = AccessInfo_LastAccess s in
                                   case AccessEvents_RecordAccess m s event (AccessEventStore w2) of
                                     (rerr, store') \<Rightarrow>
                                       ((rerr, Some s, Some u),
                                        w2\<lparr>AccessEventStore := store',
                                           calls := calls w2 @ [CallRecordAccess s event]\<rparr>))))))"

definition resolve ::
  "('e, 'u, 'q, 'w) Middleware \<Rightarrow> 'q \<Rightarrow> ('e, 'w) world
     \<Rightarrow> ('e AuthSession option \<times> 'u option \<times> error option) \<times> ('e, 'w) world" where
  "resolve m r w =
     (case ReadOnly (resolve_body m r) (None, None) w of
        ((err, session, user), w') \<Rightarrow> ((session, user, err), w'))"

text \<open>
  \<open>Handle\<close>: \<open>Inl e\<close> is \<open>panic(e)\<close>; \<open>Inr a\<close> is the call \<open>next.ServeHTTP(rw, r)\<close> with
  \<open>a\<close> attached to the request's context. With a session and no user,
  \<open>u.ToUserInfo\<close> would dereference \<open>nil\<close>.
\<close>

definition Handle ::
  "('e, 'u, 'q, 'w) Middleware \<Rightarrow> 'q \<Rightarrow> ('e, 'w) world
     \<Rightarrow> (error + ('e, 'u) authn) \<times> ('e, 'w) world" where
  "Handle m r w =
     (case resolve m r w of
        ((s, u, err), w') \<Rightarrow>
          if is_err err ErrInvalidSession then (Inr InvalidAuthn, w')
          else (case err of
                  Some e \<Rightarrow> (Inl e, w')
                | None \<Rightarrow>
                    (case s of
                       Some s' \<Rightarrow>
                         (case u of
                            Some u' \<Rightarrow> (Inr (Authn s' u' (Time_NowUTC m)), w')
                          | None \<Rightarrow> (Inl (ErrOther ''nil pointer dereference''), w'))
                     | None \<Rightarrow> (Inr NoAuthn, w'))))"

subsection \<open>The priority protocol, in the words of the specification\<close>

text \<open>
  The specification sorts what a resolver returns into four cases: it yields a session,
  it signals "invalid" (the sentinel \<open>ErrInvalidSession\<close>), it fails with any other
  error, or it finds no credentials. \<open>priority_protocol\<close> is the table of the
  specification over the outcomes of the cookie resolver and of the header resolver:
  the result of the resolution, and the resolvers that are invoked, in order.
\<close>

datatype 'e verdict =
    Yields "'e AuthSession"
  | SignalsInvalid
  | Fails error
  | Absent

definition verdict_of :: "'e AuthSession option \<times> error option \<Rightarrow> 'e verdict" where
  "verdict_of out =
     (if is_err (snd out) ErrInvalidSession then SignalsInvalid
      else (case snd out of
              Some e \<Rightarrow> Fails e
            | None \<Rightarrow> (case fst out of Some s \<Rightarrow> Yields s | None \<Rightarrow> Absent)))"

fun priority_protocol ::
  "'e verdict \<Rightarrow> 'e verdict \<Rightarrow> ('e AuthSession option \<times> error option) \<times> resolver_role list" where
  "priority_protocol (Yields s) v2 = ((Some s, None), [IDPSession])"
| "priority_protocol (Fails e) v2 = ((None, Some e), [IDPSession])"
| "priority_protocol SignalsInvalid (Yields s) = ((Some s, None), [IDPSession, AccessTokenSession])"
| "priority_protocol SignalsInvalid (Fails e) = ((None, Some e), [IDPSession, AccessTokenSession])"
| "priority_protocol SignalsInvalid SignalsInvalid =
     ((None, Some ErrInvalidSession), [IDPSession, AccessTokenSession])"
| "priority_protocol SignalsInvalid Absent =
     ((None, Some ErrInvalidSession), [IDPSession, AccessTokenSession])"
| "priority_protocol Absent (Yields s) = ((Some s, None), [IDPSession, AccessTokenSession])"
| "priority_protocol Absent (Fails e) = ((None, Some e), [IDPSession, AccessTokenSession])"
| "priority_protocol Absent SignalsInvalid =
     ((None, Some ErrInvalidSession), [IDPSession, AccessTokenSession])"
| "priority_protocol Absent Absent = ((None, None), [IDPSession, AccessTokenSession])"

subsection \<open>Example collaborators\<close>

text \<open>
  Concrete collaborators on which the middleware can be evaluated: resolvers with fixed
  outcomes that leave a mark on the response, a user store and an Access Event Store that
  succeed or fail as told. Events and user records are strings here.
\<close>

definition example_session :: "string AuthSession" where
  "example_session = \<lparr>AuthnAttrs_UserID = ''user-id'', AccessInfo_LastAccess = ''last-access''\<rparr>"

definition example_middleware ::
  "(string AuthSession option \<times> error option) \<Rightarrow> (string AuthSession option \<times> error option)
     \<Rightarrow> error option \<Rightarrow> error option \<Rightarrow> (string, string, string, string list) Middleware" where
  "example_middleware o1 o2 gerr rerr =
     \<lparr>IDPSessionResolver = (\<lambda>w r. (o1, w @ [''cookie''])),
      AccessTokenSessionResolver = (\<lambda>w r. (o2, w @ [''header''])),
      AccessEvents_RecordAccess =
        (\<lambda>s ev store. case rerr of None \<Rightarrow> (None, store @ [(s, ev)]) | Some e \<Rightarrow> (Some e, store)),
      AuthInfoStore_GetAuth = (\<lambda>uid u. case gerr of None \<Rightarrow> (None, uid) | Some e \<Rightarrow> (Some e, u)),
      AuthInfo_zero = [],
      Time_NowUTC = 1136073600\<rparr>"

definition example_world :: "(string, string list) world" where
  "example_world =
     \<lparr>rw = [], tx_open = False, BeginTxx_err = None, Commit_err = None, Rollback_err = None,
      AccessEventStore = [], calls = []\<rparr>"

section \<open>The session provider (\<open>pkg/core/auth/session\<close>)\<close>

text \<open>
  Of this package the sources hold the test \<open>provider_impl_test.go\<close> only. The data below
  is as the test writes it; the operations are modelled from the specification and checked
  against what the test asserts.
\<close>

subsection \<open>Data\<close>

text \<open>
  A \<open>time.Time\<close> is its Unix time in seconds; lifetimes are seconds.
  \<open>zero_Time\<close> is the zero value of \<open>time.Time\<close> (1 January of year 1).
\<close>

definition zero_Time :: int where
  "zero_Time = - 62135596800"

record SessionAccessEventConnInfo =
  RemoteAddr :: string
  XForwardedFor :: string
  XRealIP :: string
  Forwarded :: string

record SessionAccessEvent =
  Timestamp :: int
  Remote :: SessionAccessEventConnInfo
  UserAgent :: string
  Extra :: "(string \<times> string) list"

record Session =
  ID :: string
  ClientID :: string
  UserID :: string
  PrincipalID :: string
  InitialAccess :: SessionAccessEvent
  LastAccess :: SessionAccessEvent
  CreatedAt :: int
  AccessedAt :: int
  AccessToken :: string
  RefreshToken :: string
  AccessTokenCreatedAt :: int

record APIClientConfiguration =
  Disabled :: bool
  AccessTokenLifetime :: int
  SessionIdleTimeout :: int
  RefreshTokenLifetime :: int
  RefreshTokenDisabled :: bool

datatype SessionTokenKind = SessionTokenKindAccessToken | SessionTokenKindRefreshToken

record Request =
  req_RemoteAddr :: string
  req_Header :: "(string \<times> string) list"

text \<open>The zero values of Go: what a struct literal leaves out.\<close>

definition zero_ConnInfo :: SessionAccessEventConnInfo where
  "zero_ConnInfo = \<lparr>RemoteAddr = [], XForwardedFor = [], XRealIP = [], Forwarded = []\<rparr>"

definition zero_AccessEvent :: SessionAccessEvent where
  "zero_AccessEvent = \<lparr>Timestamp = zero_Time, Remote = zero_ConnInfo, UserAgent = [], Extra = []\<rparr>"

definition zero_ClientConfiguration :: APIClientConfiguration where
  "zero_ClientConfiguration =
     \<lparr>Disabled = False, AccessTokenLifetime = 0, SessionIdleTimeout = 0,
      RefreshTokenLifetime = 0, RefreshTokenDisabled = False\<rparr>"

text \<open>
  The fields of \<open>providerImpl\<close> that a call only reads (\<open>req\<close>, \<open>authContext\<close>,
  \<open>clientConfigs\<close>, \<open>time\<close>), and what the package fixes and the sources do not show:
  \<open>tokenLength\<close>, the size limit of the extra-info header, its JSON decoder, and the
  random source \<open>rand\<close> with \<open>uuid.New\<close>, both read at a position of the entropy consumed
  so far. \<open>authContext\<close> is the client ID of the request's access key.
\<close>

record providerImpl =
  req :: Request
  authContext :: string
  clientConfigs :: "(string \<times> APIClientConfiguration) list"
  time_NowUTC :: int
  tokenLength :: nat
  extraDataSizeLimit :: nat
  decodeExtra :: "string \<Rightarrow> (string \<times> string) list option"
  uuid_New :: "nat \<Rightarrow> string"
  rand_char :: "nat \<Rightarrow> char"

text \<open>
  What a call changes: the two stores of the test (\<open>NewMockStore\<close> with its map
  \<open>Sessions\<close> from session ID to session, \<open>NewMockEventStore\<close> with its slice
  \<open>AccessEvents\<close>), and the entropy consumed. These stores do not fail.
\<close>

record provider_state =
  Sessions :: "(string \<times> Session) list"
  AccessEvents :: "SessionAccessEvent list"
  entropy :: nat

subsection \<open>Tokens\<close>

text \<open>
  Modelled from the spec: the token functions of the package are not in the sources.
  A token is the session ID and a random secret of fixed length, joined by a delimiter
  that does not occur in the ID (section 4.1); the test's tokens (\<open>session-id.access-token\<close>)
  show the delimiter. Decoding splits at the first delimiter; a token without delimiter or
  with an empty secret is malformed.
\<close>

definition encodeToken :: "string \<Rightarrow> string \<Rightarrow> string" where
  "encodeToken sid secret = sid @ ''.'' @ secret"

definition decodeToken :: "string \<Rightarrow> (string \<times> string) option" where
  "decodeToken token =
     (case dropWhile (\<lambda>c. c \<noteq> CHR ''.'') token of
        [] \<Rightarrow> None
      | d # secret \<Rightarrow>
          if secret = [] then None
          else Some (takeWhile (\<lambda>c. c \<noteq> CHR ''.'') token, secret))"

definition generateSecret :: "providerImpl \<Rightarrow> nat \<Rightarrow> string" where
  "generateSecret p n = map (rand_char p) [n ..< n + tokenLength p]"

subsection \<open>Access events\<close>

definition header_Get :: "(string \<times> string) list \<Rightarrow> string \<Rightarrow> string" where
  "header_Get h k = (case map_of h k of None \<Rightarrow> [] | Some v \<Rightarrow> v)"

text \<open>
  Modelled from the spec: \<open>newAccessEvent\<close> is not in the sources. The event holds the
  timestamp, the user agent, the connection information and the extra information of the
  \<open>X-Skygear-Extra-Info\<close> header, replaced by the empty map when the header is larger than
  the limit (section 3); the headers read are those the test sets.
\<close>

definition newAccessEvent :: "providerImpl \<Rightarrow> int \<Rightarrow> Request \<Rightarrow> SessionAccessEvent" where
  "newAccessEvent p now r =
     (let raw = header_Get (req_Header r) ''X-Skygear-Extra-Info'' in
      \<lparr>Timestamp = now,
       Remote = \<lparr>RemoteAddr = req_RemoteAddr r,
                 XForwardedFor = header_Get (req_Header r) ''X-Forwarded-For'',
                 XRealIP = header_Get (req_Header r) ''X-Real-IP'',
                 Forwarded = header_Get (req_Header r) ''Forwarded''\<rparr>,
       UserAgent = header_Get (req_Header r) ''User-Agent'',
       Extra = (if length raw > extraDataSizeLimit p then []
                else (case decodeExtra p raw of None \<Rightarrow> [] | Some kv \<Rightarrow> kv))\<rparr>)"

subsection \<open>\<open>Create\<close>\<close>

text \<open>
  Modelled from the spec: \<open>providerImpl.Create\<close> is not in the sources. Section 4.2: a new
  ID, an access token, a refresh token unless the client's configuration disables it,
  \<open>CreatedAt = AccessedAt = AccessTokenCreatedAt = now\<close>, the access event of the current
  request as \<open>InitialAccess\<close>, the session persisted and the event recorded. The
  specification also sets \<open>LastAccess\<close> to the event; \<open>TestProvider\<close> (lines 56 to 74)
  requires the session to resemble a struct that leaves \<open>LastAccess\<close> out, that is, its zero
  value, and the model follows the test.
\<close>

definition Create ::
  "providerImpl \<Rightarrow> string \<Rightarrow> string \<Rightarrow> provider_state \<Rightarrow> (error + Session) \<times> provider_state" where
  "Create p userID principalID st =
     (let now = time_NowUTC p;
          clientID = authContext p;
          clientConfig = (case map_of (clientConfigs p) clientID of
                            None \<Rightarrow> zero_ClientConfiguration | Some c \<Rightarrow> c);
          accessEvent = newAccessEvent p now (req p);
          sid = uuid_New p (entropy st);
          accessToken = encodeToken sid (generateSecret p (entropy st + 1));
          refreshToken = (if RefreshTokenDisabled clientConfig then []
                          else encodeToken sid (generateSecret p (entropy st + 1 + tokenLength p)));
          session = \<lparr>ID = sid, ClientID = clientID, UserID = userID, PrincipalID = principalID,
                     InitialAccess = accessEvent, LastAccess = zero_AccessEvent,
                     CreatedAt = now, AccessedAt = now,
                     AccessToken = accessToken, RefreshToken = refreshToken,
                     AccessTokenCreatedAt = now\<rparr>
      in (Inr session,
          st\<lparr>Sessions := AList.update sid session (Sessions st),
             AccessEvents := AccessEvents st @ [accessEvent],
             entropy := entropy st + 1 + 2 * tokenLength p\<rparr>))"

subsection \<open>Expiry and \<open>GetByToken\<close>\<close>

text \<open>
  Modelled from the spec: \<open>checkSessionExpired\<close> is not in the sources. Section 4.3: a
  session is expired when \<open>now - AccessedAt\<close> exceeds the idle timeout, this check being
  skipped for an idle timeout of zero; or when \<open>now - AccessTokenCreatedAt\<close> exceeds the
  access-token lifetime, the refresh-token lifetime measured from \<open>CreatedAt\<close> governing
  instead when the refresh token is presented. The rule that a lifetime of zero is no limit
  is kept for the refresh-token lifetime and not for the access-token lifetime:
  \<open>TestProvider\<close> gives its clients the zero configuration (lines 30 to 33) and requires the
  access token to be rejected one million seconds later (lines 218 to 223), so one of the
  two zero dimensions of an access token must expire it; it is not the idle timeout, whose
  check the specification skips at zero, and under which the test lists sessions that have
  been idle for 300 and 400 seconds (lines 278 to 314).
\<close>

definition checkSessionExpired ::
  "Session \<Rightarrow> int \<Rightarrow> APIClientConfiguration \<Rightarrow> SessionTokenKind \<Rightarrow> bool" where
  "checkSessionExpired session now clientConfig kind =
     (if SessionIdleTimeout clientConfig \<noteq> 0
         \<and> now - AccessedAt session > SessionIdleTimeout clientConfig then True
      else (case kind of
              SessionTokenKindAccessToken \<Rightarrow>
                now - AccessTokenCreatedAt session > AccessTokenLifetime clientConfig
            | SessionTokenKindRefreshToken \<Rightarrow>
                if RefreshTokenLifetime clientConfig = 0 then False
                else now - CreatedAt session > RefreshTokenLifetime clientConfig))"

text \<open>
  Modelled from the spec: \<open>providerImpl.GetByToken\<close> is not in the sources. Sections 4.1
  and 4.2: the ID inside the token finds the record; the token is compared with the stored
  field of the requested kind, an empty stored field never matching; a session of another
  client than the request's, of a client without configuration or of a disabled client, and
  an expired session are rejected; every rejection is \<open>ErrSessionNotFound\<close>.
\<close>

definition GetByToken ::
  "providerImpl \<Rightarrow> provider_state \<Rightarrow> string \<Rightarrow> SessionTokenKind \<Rightarrow> error + Session" where
  "GetByToken p st token kind =
     (case decodeToken token of
        None \<Rightarrow> Inl ErrSessionNotFound
      | Some (sid, secret) \<Rightarrow>
          (case map_of (Sessions st) sid of
             None \<Rightarrow> Inl ErrSessionNotFound
           | Some s \<Rightarrow>
               (let expectedToken = (case kind of
                                       SessionTokenKindAccessToken \<Rightarrow> AccessToken s
                                     | SessionTokenKindRefreshToken \<Rightarrow> RefreshToken s)
                in if expectedToken = [] then Inl ErrSessionNotFound
                   else if token \<noteq> expectedToken then Inl ErrSessionNotFound
                   else if ClientID s \<noteq> authContext p then Inl ErrSessionNotFound
                   else (case map_of (clientConfigs p) (ClientID s) of
                           None \<Rightarrow> Inl ErrSessionNotFound
                         | Some clientConfig \<Rightarrow>
                             if Disabled clientConfig then Inl ErrSessionNotFound
                             else if checkSessionExpired s (time_NowUTC p) clientConfig kind
                                  then Inl ErrSessionNotFound
                                  else Inr s))))"

subsection \<open>The fixtures of \<open>TestProvider\<close>\<close>

definition initialTime :: int where
  "initialTime = 1136073600"

definition test_req :: Request where
  \<open>test_req =
     \<lparr>req_RemoteAddr = [],
      req_Header = [(''User-Agent'', ''SDK''),
                    (''X-Skygear-Extra-Info'', ''{ "device_name": "Device" }'')]\<rparr>\<close>

definition test_accessEvent :: SessionAccessEvent where
  "test_accessEvent =
     \<lparr>Timestamp = initialTime, Remote = zero_ConnInfo, UserAgent = ''SDK'',
      Extra = [(''device_name'', ''Device'')]\<rparr>"

definition test_decodeExtra :: "string \<Rightarrow> (string \<times> string) list option" where
  \<open>test_decodeExtra raw =
     (if raw = ''{ "device_name": "Device" }'' then Some [(''device_name'', ''Device'')]
      else None)\<close>

text \<open>The provider of the test at the time \<open>now\<close>, with the access key of \<open>web-app\<close>.\<close>

definition test_provider :: "int \<Rightarrow> providerImpl" where
  "test_provider now =
     \<lparr>req = test_req,
      authContext = ''web-app'',
      clientConfigs = [(''web-app'', zero_ClientConfiguration),
                       (''mobile-app'', zero_ClientConfiguration)],
      time_NowUTC = now,
      tokenLength = 32,
      extraDataSizeLimit = 1024,
      decodeExtra = test_decodeExtra,
      uuid_New = (\<lambda>n. ''session-'' @ replicate n (CHR ''i'')),
      rand_char = (\<lambda>n. if even n then CHR ''a'' else CHR ''b'')\<rparr>"

definition empty_state :: provider_state where
  "empty_state = \<lparr>Sessions = [], AccessEvents = [], entropy = 0\<rparr>"

text \<open>The session the test stores under "getting session" (lines 126 to 137).\<close>

definition fixtureSession :: Session where
  "fixtureSession =
     \<lparr>ID = ''session-id'', ClientID = ''web-app'', UserID = ''user-id'',
      PrincipalID = ''principal-id'',
      InitialAccess = zero_AccessEvent, LastAccess = zero_AccessEvent,
      CreatedAt = initialTime, AccessedAt = initialTime,
      AccessToken = ''session-id.access-token'', RefreshToken = ''session-id.refresh-token'',
      AccessTokenCreatedAt = initialTime\<rparr>"

definition fixture_state :: provider_state where
  "fixture_state = \<lparr>Sessions = [(''session-id'', fixtureSession)], AccessEvents = [], entropy = 0\<rparr>"

text \<open>
  The struct that the test requires the result of \<open>Create("user-id", "principal-id")\<close> to
  resemble (lines 59 to 70); the ID and the tokens are those of the result itself.
\<close>

definition expected_created :: "Session \<Rightarrow> Session" where
  "expected_created session =
     \<lparr>ID = ID session, ClientID = ''web-app'', UserID = ''user-id'',
      PrincipalID = ''principal-id'',
      InitialAccess = test_accessEvent, LastAccess = zero_AccessEvent,
      CreatedAt = initialTime, AccessedAt = initialTime,
      AccessToken = AccessToken session, RefreshToken = RefreshToken session,
      AccessTokenCreatedAt = initialTime\<rparr>"

section \<open>Properties of the resolution middleware\<close>

lemma is_err_None [simp]: "is_err None target = False"
  by (simp add: is_err_def)

lemma priority_protocol_roles:
  "snd (priority_protocol va vb) = [IDPSession]
   \<or> snd (priority_protocol va vb) = [IDPSession, AccessTokenSession]"
  by (cases va; cases vb) simp_all

lemma resolveSession_unfold:
  assumes "IDPSessionResolver m (rw w) r = (oa, rwa)"
      and "AccessTokenSessionResolver m rwa r = (ob, rwb)"
  shows "resolveSession m r w =
           (fst (priority_protocol (verdict_of oa) (verdict_of ob)),
            w\<lparr>rw := (if AccessTokenSession \<in> set (snd (priority_protocol (verdict_of oa) (verdict_of ob)))
                       then rwb else rwa),
              calls := calls w @ map CallResolve (snd (priority_protocol (verdict_of oa) (verdict_of ob)))\<rparr>)"
  using assms
  by (cases oa; cases ob)
     (auto simp: resolveSession_def verdict_of_def split: option.splits)

text \<open>
  A resolution invokes the cookie resolver, or the cookie resolver and then the header
  resolver, and touches nothing but the response and the log of calls.
\<close>

lemma resolveSession_frame:
  assumes "resolveSession m r w = (out, w')"
  shows "\<exists>roles. (roles = [IDPSession] \<or> roles = [IDPSession, AccessTokenSession]) \<and>
           calls w' = calls w @ map CallResolve roles \<and>
           AccessEventStore w' = AccessEventStore w \<and> tx_open w' = tx_open w"
proof -
  obtain oa rwa where a: "IDPSessionResolver m (rw w) r = (oa, rwa)"
    by (cases "IDPSessionResolver m (rw w) r") auto
  obtain ob rwb where b: "AccessTokenSessionResolver m rwa r = (ob, rwb)"
    by (cases "AccessTokenSessionResolver m rwa r") auto
  let ?roles = "snd (priority_protocol (verdict_of oa) (verdict_of ob))"
  have "w' = w\<lparr>rw := (if AccessTokenSession \<in> set ?roles then rwb else rwa),
                  calls := calls w @ map CallResolve ?roles\<rparr>"
    using resolveSession_unfold [OF a b] assms by simp
  then have "calls w' = calls w @ map CallResolve ?roles
             \<and> AccessEventStore w' = AccessEventStore w \<and> tx_open w' = tx_open w"
    by simp
  with priority_protocol_roles [of "verdict_of oa" "verdict_of ob"] show ?thesis
    by blast
qed

lemma ReadOnly_begun:
  assumes "\<not> tx_open w" and "BeginTxx_err w = None"
      and "do (w\<lparr>tx_open := True, calls := calls w @ [CallBeginTx]\<rparr>) = (res, w2)"
  shows "ReadOnly do init w = (res, snd (RollbackTx (w2\<lparr>calls := calls w2 @ [CallEndTx]\<rparr>)))"
proof -
  have "BeginTx (w\<lparr>calls := calls w @ [CallBeginTx]\<rparr>)
          = (None, w\<lparr>calls := calls w @ [CallBeginTx], tx_open := True\<rparr>)"
    using assms(1,2) by (simp add: BeginTx_def)
  moreover have "w\<lparr>calls := calls w @ [CallBeginTx], tx_open := True\<rparr>
                   = w\<lparr>tx_open := True, calls := calls w @ [CallBeginTx]\<rparr>"
    by simp
  ultimately show ?thesis using assms(3) by (simp add: ReadOnly_def)
qed

text \<open>
  \<open>ReadOnly\<close> is \<open>WithTx\<close> with the commit replaced by a rollback: on a callback that
  fails, the two agree.
\<close>

lemma ReadOnly_WithTx_on_error:
  assumes "\<And>w1. fst (fst (do w1)) \<noteq> None"
  shows "ReadOnly do init w = WithTx do init w"
proof (cases "BeginTx (w\<lparr>calls := calls w @ [CallBeginTx]\<rparr>)")
  case (Pair berr w1)
  show ?thesis
  proof (cases berr)
    case (Some e)
    with Pair show ?thesis by (simp add: ReadOnly_def WithTx_def)
  next
    case None
    obtain err vars w2 where d: "do w1 = ((err, vars), w2)"
      by (cases "do w1") auto
    with assms [of w1] obtain e where "err = Some e" by auto
    with Pair None d show ?thesis by (simp add: ReadOnly_def WithTx_def EndTx_def)
  qed
qed

text \<open>
  When the transaction does not begin, \<open>resolve\<close> invokes no resolver and no other
  collaborator, and \<open>Handle\<close> does not reach the downstream handler without a verdict on the
  error: a request for which the resolvers return anything is one whose transaction began.
\<close>

lemma Handle_no_transaction:
  assumes "tx_open w \<or> BeginTxx_err w \<noteq> None"
  shows "calls (snd (Handle m r w)) = calls w @ [CallBeginTx]
         \<and> fst (Handle m r w) \<noteq> Inr NoAuthn"
  using assms
  by (auto simp: Handle_def resolve_def ReadOnly_def BeginTx_def split: option.splits)

lemma RollbackTx_frame:
  "calls (snd (RollbackTx w)) = calls w \<and> AccessEventStore (snd (RollbackTx w)) = AccessEventStore w
   \<and> rw (snd (RollbackTx w)) = rw w"
  by (simp add: RollbackTx_def split: option.splits)

lemma resolve_body_session:
  assumes "resolveSession m r w0 = ((Some s, None), w1)"
      and "AuthInfoStore_GetAuth m (AuthnAttrs_UserID s) (AuthInfo_zero m) = (gerr, u)"
      and "AccessEvents_RecordAccess m s (AccessInfo_LastAccess s) (AccessEventStore w1) = (rerr, store')"
  shows "resolve_body m r w0 =
          (if gerr \<noteq> None
           then ((gerr, Some s, Some u), w1\<lparr>calls := calls w1 @ [CallGetAuth (AuthnAttrs_UserID s)]\<rparr>)
           else ((rerr, Some s, Some u),
                 w1\<lparr>AccessEventStore := store',
                    calls := calls w1 @ [CallGetAuth (AuthnAttrs_UserID s),
                                         CallRecordAccess s (AccessInfo_LastAccess s)]\<rparr>))"
  using assms by (simp add: resolve_body_def Let_def)

lemma Handle_outcome:
  assumes "resolve m r w = ((s, u, err), w')"
  shows "fst (Handle m r w) =
          (if is_err err ErrInvalidSession then Inr InvalidAuthn
           else case err of Some e \<Rightarrow> Inl e
             | None \<Rightarrow> (case s of None \<Rightarrow> Inr NoAuthn
                 | Some s' \<Rightarrow> (case u of Some u' \<Rightarrow> Inr (Authn s' u' (Time_NowUTC m))
                     | None \<Rightarrow> Inl (ErrOther ''nil pointer dereference''))))"
    and "snd (Handle m r w) = w'"
  using assms by (auto simp: Handle_def split: option.splits)

lemmas example_simps =
  example_middleware_def example_world_def example_session_def
  Handle_def resolve_def ReadOnly_def BeginTx_def RollbackTx_def resolve_body_def
  resolveSession_def verdict_of_def is_err_def Let_def

text \<open>
  Claim C1. For every pair of outcomes of the two resolvers, \<open>resolveSession\<close> follows the
  priority protocol: the cookie resolver is invoked first, and when it yields a session
  that session is the result and the header resolver is not invoked; when a resolver
  returns \<open>ErrInvalidSession\<close> this is remembered and the next resolver is tried; any other
  error ends the resolution at once and is its result; when no resolver yields a session
  the result is \<open>ErrInvalidSession\<close> if a resolver signalled it, and \<open>(nil, nil)\<close>
  otherwise. The outcome of the header resolver is the one it gives on the response the
  cookie resolver left. The result and the resolvers invoked are those of the table
  \<open>priority_protocol\<close>; the response is the one the last invoked resolver left.
\<close>

theorem resolveSession_priority_protocol:
  assumes "IDPSessionResolver m (rw w) r = (cookie_out, rw_cookie)"
      and "AccessTokenSessionResolver m rw_cookie r = (header_out, rw_header)"
  shows "resolveSession m r w =
           (fst (priority_protocol (verdict_of cookie_out) (verdict_of header_out)),
            w\<lparr>rw := (if AccessTokenSession
                          \<in> set (snd (priority_protocol (verdict_of cookie_out) (verdict_of header_out)))
                       then rw_header else rw_cookie),
              calls := calls w @
                map CallResolve (snd (priority_protocol (verdict_of cookie_out) (verdict_of header_out)))\<rparr>)"
  using assms
  by (cases cookie_out; cases header_out)
     (auto simp: resolveSession_def verdict_of_def split: option.splits)

text \<open>
  At a cookie resolver that reports a wrapped \<open>ErrInvalidSession\<close> and a header resolver
  that finds nothing, the result is "invalid", not "no credentials".
\<close>

theorem resolveSession_priority_protocol_witness:
  "resolveSession
     (example_middleware (None, Some (Wrapped ''cookie'' ErrInvalidSession)) (None, None) None None)
     ''request'' example_world
   = ((None, Some ErrInvalidSession),
      example_world\<lparr>rw := [''cookie'', ''header''],
                     calls := [CallResolve IDPSession, CallResolve AccessTokenSession]\<rparr>)"
  using resolveSession_priority_protocol
    [where m = "example_middleware (None, Some (Wrapped ''cookie'' ErrInvalidSession)) (None, None) None None"
       and w = example_world and r = "''request''"
       and cookie_out = "(None, Some (Wrapped ''cookie'' ErrInvalidSession))"
       and rw_cookie = "[''cookie'']"
       and header_out = "(None, None)" and rw_header = "[''cookie'', ''header'']"]
  by (simp add: example_middleware_def example_world_def verdict_of_def is_err_def)

text \<open>
  Claim C9, amended. For every request whose transaction begins and whose resolution yields
  a session, the middleware then fetches the record of the owning user and, when that
  fetch succeeded, records the access event \<open>LastAccess\<close> of the session; the resolution
  and these steps are the calls between the one \<open>BeginTx\<close> and the one end of the read-only
  transaction, which is open when the resolution returns. The downstream handler sees an
  authenticated request exactly when both steps succeed, and then with this session and
  this user.
\<close>

theorem resolve_steps_in_read_only_scope:
  assumes "\<not> tx_open w" and "BeginTxx_err w = None"
      and "resolveSession m r (w\<lparr>tx_open := True, calls := calls w @ [CallBeginTx]\<rparr>)
             = ((Some s, None), w1)"
      and "AuthInfoStore_GetAuth m (AuthnAttrs_UserID s) (AuthInfo_zero m) = (gerr, u)"
      and "AccessEvents_RecordAccess m s (AccessInfo_LastAccess s) (AccessEventStore w1) = (rerr, store')"
  shows "(\<exists>roles. (roles = [IDPSession] \<or> roles = [IDPSession, AccessTokenSession]) \<and>
            calls (snd (Handle m r w)) =
              calls w @ [CallBeginTx] @ map CallResolve roles @ [CallGetAuth (AuthnAttrs_UserID s)]
                @ (if gerr = None then [CallRecordAccess s (AccessInfo_LastAccess s)] else [])
                @ [CallEndTx])
         \<and> tx_open w1
         \<and> ((\<exists>s' u' t. fst (Handle m r w) = Inr (Authn s' u' t)) = (gerr = None \<and> rerr = None))
         \<and> (gerr = None \<and> rerr = None \<longrightarrow> fst (Handle m r w) = Inr (Authn s u (Time_NowUTC m)))"
proof -
  let ?w0 = "w\<lparr>tx_open := True, calls := calls w @ [CallBeginTx]\<rparr>"
  define err where "err = (if gerr \<noteq> None then gerr else rerr)"
  from resolveSession_frame [OF assms(3)] obtain roles where
    roles: "roles = [IDPSession] \<or> roles = [IDPSession, AccessTokenSession]"
    and w1: "calls w1 = calls w @ [CallBeginTx] @ map CallResolve roles"
    and tx: "tx_open w1"
    by auto
  obtain w2 where body: "resolve_body m r ?w0 = ((err, Some s, Some u), w2)"
    and w2: "calls w2 = calls w1 @ [CallGetAuth (AuthnAttrs_UserID s)]
                @ (if gerr = None then [CallRecordAccess s (AccessInfo_LastAccess s)] else [])"
    using resolve_body_session [OF assms(3,4,5)] by (cases "gerr = None") (simp_all add: err_def)
  let ?w' = "snd (RollbackTx (w2\<lparr>calls := calls w2 @ [CallEndTx]\<rparr>))"
  have rs: "resolve m r w = ((Some s, Some u, err), ?w')"
    using ReadOnly_begun [of w "resolve_body m r" "(err, Some s, Some u)" w2 "(None, None)"]
      assms(1,2) body by (simp add: resolve_def)
  have c: "calls (snd (Handle m r w)) =
              calls w @ [CallBeginTx] @ map CallResolve roles @ [CallGetAuth (AuthnAttrs_UserID s)]
                @ (if gerr = None then [CallRecordAccess s (AccessInfo_LastAccess s)] else [])
                @ [CallEndTx]"
    using Handle_outcome(2) [OF rs] w1 w2 by (simp add: RollbackTx_frame)
  have f: "fst (Handle m r w) =
          (if is_err err ErrInvalidSession then Inr InvalidAuthn
           else case err of Some e \<Rightarrow> Inl e
             | None \<Rightarrow> Inr (Authn s u (Time_NowUTC m)))"
    by (simp add: Handle_outcome(1) [OF rs] split: option.splits)
  have none: "(err = None) = (gerr = None \<and> rerr = None)"
    by (auto simp: err_def)
  have e: "gerr = None \<and> rerr = None \<longrightarrow> fst (Handle m r w) = Inr (Authn s u (Time_NowUTC m))"
  proof
    assume "gerr = None \<and> rerr = None"
    then have "err = None" using none by simp
    then show "fst (Handle m r w) = Inr (Authn s u (Time_NowUTC m))" using f by simp
  qed
  have d: "(\<exists>s' u' t. fst (Handle m r w) = Inr (Authn s' u' t)) = (gerr = None \<and> rerr = None)"
  proof (cases err)
    case None
    with e none show ?thesis by simp
  next
    case (Some x)
    then have "fst (Handle m r w) = Inr InvalidAuthn \<or> fst (Handle m r w) = Inl x"
      using f by simp
    with Some none show ?thesis by auto
  qed
  from roles c tx d e show ?thesis by blast
qed

text \<open>With a session in the cookie, a user record and a working event store.\<close>

theorem resolve_steps_in_read_only_scope_witness:
  "fst (Handle (example_middleware (Some example_session, None) (None, None) None None)
          ''request'' example_world)
     = Inr (Authn example_session ''user-id'' 1136073600)
   \<and> calls (snd (Handle (example_middleware (Some example_session, None) (None, None) None None)
          ''request'' example_world))
     = [CallBeginTx, CallResolve IDPSession, CallGetAuth ''user-id'',
        CallRecordAccess example_session ''last-access'', CallEndTx]"
  using resolve_steps_in_read_only_scope
    [where m = "example_middleware (Some example_session, None) (None, None) None None"
       and w = example_world and r = "''request''" and s = example_session
       and ?w1.0 = "example_world\<lparr>rw := [''cookie''], tx_open := True,
                                   calls := [CallBeginTx, CallResolve IDPSession]\<rparr>"
       and gerr = None and u = "''user-id''" and rerr = None
       and store' = "[(example_session, ''last-access'')]"]
  by (simp add: example_simps)

text \<open>
  The claim as it was stated has the access event recorded for every request whose
  resolution yields a session. When the fetch of the user record fails, \<open>resolve\<close> returns
  before \<open>RecordAccess\<close>: the cookie resolver yields the session, the Access Event Store
  stays empty, and \<open>Handle\<close> panics with the error of the fetch.
\<close>

theorem resolve_skips_RecordAccess_counterexample:
  "fst (resolveSession
          (example_middleware (Some example_session, None) (None, None) (Some (ErrOther ''database'')) None)
          ''request'' (example_world\<lparr>tx_open := True, calls := [CallBeginTx]\<rparr>))
     = (Some example_session, None)
   \<and> Handle (example_middleware (Some example_session, None) (None, None) (Some (ErrOther ''database'')) None)
        ''request'' example_world
     = (Inl (ErrOther ''database''),
        example_world\<lparr>rw := [''cookie''],
           calls := [CallBeginTx, CallResolve IDPSession, CallGetAuth ''user-id'', CallEndTx]\<rparr>)
   \<and> AccessEventStore
        (snd (Handle (example_middleware (Some example_session, None) (None, None)
                        (Some (ErrOther ''database'')) None)
                ''request'' example_world)) = []"
  by (simp add: example_simps)

text \<open>
  Claim C10. For every request whose transaction begins and for which both resolvers
  return no session and no error, the middleware looks up no user record and records no
  access event: between the begin and the end of the transaction it calls the two resolvers
  and nothing else, the Access Event Store is as before, and the downstream handler runs
  with no authentication attached to the request.
\<close>

theorem no_credentials_no_lookup:
  assumes "\<not> tx_open w" and "BeginTxx_err w = None"
      and "IDPSessionResolver m (rw w) r = ((None, None), rw_cookie)"
      and "AccessTokenSessionResolver m rw_cookie r = ((None, None), rw_header)"
  shows "fst (Handle m r w) = Inr NoAuthn
         \<and> calls (snd (Handle m r w)) =
             calls w @ [CallBeginTx, CallResolve IDPSession, CallResolve AccessTokenSession, CallEndTx]
         \<and> AccessEventStore (snd (Handle m r w)) = AccessEventStore w
         \<and> rw (snd (Handle m r w)) = rw_header"
proof -
  let ?w0 = "w\<lparr>tx_open := True, calls := calls w @ [CallBeginTx]\<rparr>"
  let ?w1 = "?w0\<lparr>rw := rw_header,
                  calls := calls w @ [CallBeginTx, CallResolve IDPSession, CallResolve AccessTokenSession]\<rparr>"
  have rsn: "resolveSession m r ?w0 = ((None, None), ?w1)"
    using assms(3,4) by (simp add: resolveSession_def)
  have body: "resolve_body m r ?w0 = ((None, None, None), ?w1)"
    using rsn by (simp add: resolve_body_def)
  let ?w' = "snd (RollbackTx (?w1\<lparr>calls := calls ?w1 @ [CallEndTx]\<rparr>))"
  have rs: "resolve m r w = ((None, None, None), ?w')"
    using ReadOnly_begun [of w "resolve_body m r" "(None, None, None)" ?w1 "(None, None)"]
      assms(1,2) body by (simp add: resolve_def)
  show ?thesis
    using Handle_outcome [OF rs] by (simp add: RollbackTx_frame)
qed

theorem no_credentials_no_lookup_witness:
  "fst (Handle (example_middleware (None, None) (None, None) None None) ''request'' example_world)
     = Inr NoAuthn
   \<and> calls (snd (Handle (example_middleware (None, None) (None, None) None None) ''request'' example_world))
     = [CallBeginTx, CallResolve IDPSession, CallResolve AccessTokenSession, CallEndTx]
   \<and> AccessEventStore
       (snd (Handle (example_middleware (None, None) (None, None) None None) ''request'' example_world))
     = []"
  using no_credentials_no_lookup
    [where m = "example_middleware (None, None) (None, None) None None"
       and w = example_world and r = "''request''"
       and rw_cookie = "[''cookie'']" and rw_header = "[''cookie'', ''header'']"]
  by (simp add: example_middleware_def example_world_def)

section \<open>Properties of the session provider\<close>

subsection \<open>The model against \<open>TestProvider\<close>\<close>

lemma decodeToken_fixture_access:
  "decodeToken ''session-id.access-token'' = Some (''session-id'', ''access-token'')"
  by (simp add: decodeToken_def)

lemma decodeToken_fixture_refresh:
  "decodeToken ''session-id.refresh-token'' = Some (''session-id'', ''refresh-token'')"
  by (simp add: decodeToken_def)

lemmas fixture_simps =
  GetByToken_def fixture_state_def fixtureSession_def test_provider_def
  zero_ClientConfiguration_def checkSessionExpired_def

text \<open>"should be successful using access token", "should be successful using refresh token".\<close>

lemma test_GetByToken_access_token:
  "GetByToken (test_provider initialTime) fixture_state ''session-id.access-token''
     SessionTokenKindAccessToken = Inr fixtureSession"
  by (simp add: fixture_simps decodeToken_fixture_access)

lemma test_GetByToken_refresh_token:
  "GetByToken (test_provider initialTime) fixture_state ''session-id.refresh-token''
     SessionTokenKindRefreshToken = Inr fixtureSession"
  by (simp add: fixture_simps decodeToken_fixture_refresh)

text \<open>"should not mix up access and refresh token", "should reject incorrect token".\<close>

lemma test_GetByToken_mixed_kinds:
  "GetByToken (test_provider initialTime) fixture_state ''session-id.access-token''
     SessionTokenKindRefreshToken = Inl ErrSessionNotFound
   \<and> GetByToken (test_provider initialTime) fixture_state ''session-id.refresh-token''
     SessionTokenKindAccessToken = Inl ErrSessionNotFound"
  by (simp add: fixture_simps decodeToken_fixture_access decodeToken_fixture_refresh)

lemma test_GetByToken_incorrect_token:
  "GetByToken (test_provider initialTime) fixture_state ''session-id.incorrect-token''
     SessionTokenKindAccessToken = Inl ErrSessionNotFound
   \<and> GetByToken (test_provider initialTime) fixture_state ''invalid-token''
     SessionTokenKindAccessToken = Inl ErrSessionNotFound
   \<and> GetByToken (test_provider initialTime) fixture_state ''session-id-unknown.access-token''
     SessionTokenKindAccessToken = Inl ErrSessionNotFound"
  by (simp add: fixture_simps decodeToken_def)

text \<open>"should reject session of other clients": the access key of \<open>mobile-app\<close>.\<close>

lemma test_GetByToken_other_client:
  "GetByToken ((test_provider initialTime)\<lparr>authContext := ''mobile-app''\<rparr>) fixture_state
     ''session-id.access-token'' SessionTokenKindAccessToken = Inl ErrSessionNotFound"
  by (simp add: fixture_simps decodeToken_fixture_access)

text \<open>"should reject if client is disabled", "should reject if client does not exists".\<close>

lemma test_GetByToken_client_disabled:
  "GetByToken ((test_provider initialTime)
       \<lparr>clientConfigs := [(''web-app'', zero_ClientConfiguration\<lparr>Disabled := True\<rparr>),
                          (''mobile-app'', zero_ClientConfiguration)]\<rparr>) fixture_state
     ''session-id.access-token'' SessionTokenKindAccessToken = Inl ErrSessionNotFound
   \<and> GetByToken ((test_provider initialTime)
       \<lparr>clientConfigs := [(''mobile-app'', zero_ClientConfiguration)]\<rparr>) fixture_state
     ''session-id.access-token'' SessionTokenKindAccessToken = Inl ErrSessionNotFound"
  by (simp add: fixture_simps decodeToken_fixture_access)

text \<open>"should not match empty tokens".\<close>

lemma test_GetByToken_empty_tokens:
  "GetByToken (test_provider initialTime)
     (fixture_state\<lparr>Sessions := [(''session-id'', fixtureSession\<lparr>AccessToken := []\<rparr>)]\<rparr>)
     ''session-id.'' SessionTokenKindAccessToken = Inl ErrSessionNotFound
   \<and> GetByToken (test_provider initialTime)
     (fixture_state\<lparr>Sessions := [(''session-id'', fixtureSession\<lparr>RefreshToken := []\<rparr>)]\<rparr>)
     ''session-id.'' SessionTokenKindRefreshToken = Inl ErrSessionNotFound"
  by (simp add: fixture_simps decodeToken_def)

lemma test_newAccessEvent:
  "newAccessEvent (test_provider initialTime) initialTime test_req = test_accessEvent"
  by (simp add: newAccessEvent_def test_provider_def test_req_def test_accessEvent_def
        header_Get_def test_decodeExtra_def zero_ConnInfo_def)

text \<open>
  "creating session should be successful": the session resembles the struct the test
  expects, the access token has the length the test expects, and the event store holds
  the one event.
\<close>

lemma test_Create_resembles:
  assumes "Create (test_provider initialTime) ''user-id'' ''principal-id'' empty_state = (Inr s, st')"
  shows "s = expected_created s \<and> AccessEvents st' = [test_accessEvent]
         \<and> length (AccessToken s) = 32 + length (ID s) + 1"
proof -
  let ?p = "test_provider initialTime"
  have rq: "req ?p = test_req"
    by (simp add: test_provider_def)
  have ev: "newAccessEvent ?p initialTime (req ?p) = test_accessEvent"
    unfolding rq by (rule test_newAccessEvent)
  have p: "authContext ?p = ''web-app''" "time_NowUTC ?p = initialTime" "tokenLength ?p = 32"
    by (simp_all add: test_provider_def)
  show ?thesis
    using assms by (auto simp: Create_def Let_def expected_created_def empty_state_def encodeToken_def
                  generateSecret_def ev p)
qed

subsection \<open>Expiry\<close>

text \<open>
  Claim C2, amended. For a well-formed token that is the stored token of the requested
  kind of a stored session, presented by the session's own client whose configuration
  exists and is not disabled, \<open>GetByToken\<close> returns the session exactly when both
  dimensions pass, and \<open>ErrSessionNotFound\<close> otherwise. A \<open>SessionIdleTimeout\<close> of zero
  and, for the refresh token, a \<open>RefreshTokenLifetime\<close> of zero impose no expiry. An
  \<open>AccessTokenLifetime\<close> of zero is a lifetime of zero seconds: the access token is
  accepted only while \<open>now \<le> AccessTokenCreatedAt\<close>.
\<close>

theorem GetByToken_expiry_dimensions:
  assumes "decodeToken token = Some (sid, secret)"
      and "map_of (Sessions st) sid = Some s"
      and "token = (case kind of SessionTokenKindAccessToken \<Rightarrow> AccessToken s
                               | SessionTokenKindRefreshToken \<Rightarrow> RefreshToken s)"
      and "ClientID s = authContext p"
      and "map_of (clientConfigs p) (ClientID s) = Some cfg"
      and "\<not> Disabled cfg"
  shows "((GetByToken p st token kind = Inr s) =
           ((SessionIdleTimeout cfg = 0 \<or> time_NowUTC p - AccessedAt s \<le> SessionIdleTimeout cfg) \<and>
            (case kind of
               SessionTokenKindAccessToken \<Rightarrow>
                 time_NowUTC p - AccessTokenCreatedAt s \<le> AccessTokenLifetime cfg
             | SessionTokenKindRefreshToken \<Rightarrow>
                 RefreshTokenLifetime cfg = 0
                 \<or> time_NowUTC p - CreatedAt s \<le> RefreshTokenLifetime cfg)))
         \<and> (GetByToken p st token kind = Inr s \<or> GetByToken p st token kind = Inl ErrSessionNotFound)"
proof -
  have ne: "token \<noteq> []"
    using assms(1) by (auto simp: decodeToken_def)
  have g: "GetByToken p st token kind =
             (if checkSessionExpired s (time_NowUTC p) cfg kind then Inl ErrSessionNotFound else Inr s)"
    using assms ne by (cases kind) (simp_all add: GetByToken_def)
  show ?thesis
    unfolding g by (cases kind) (auto simp: checkSessionExpired_def)
qed

text \<open>
  One million seconds after its creation, under the zero configuration, the session of
  the test is still found by its refresh token and no longer by its access token.
\<close>

theorem GetByToken_expiry_dimensions_witness:
  "GetByToken (test_provider (initialTime + 1000000)) fixture_state ''session-id.refresh-token''
      SessionTokenKindRefreshToken = Inr fixtureSession
   \<and> GetByToken (test_provider (initialTime + 1000000)) fixture_state ''session-id.access-token''
      SessionTokenKindAccessToken \<noteq> Inr fixtureSession"
proof -
  let ?p = "test_provider (initialTime + 1000000)"
  have st: "map_of (Sessions fixture_state) ''session-id'' = Some fixtureSession"
    by (simp add: fixture_state_def)
  have ra: "''session-id.refresh-token'' =
              (case SessionTokenKindRefreshToken of
                 SessionTokenKindAccessToken \<Rightarrow> AccessToken fixtureSession
               | SessionTokenKindRefreshToken \<Rightarrow> RefreshToken fixtureSession)"
    and aa: "''session-id.access-token'' =
              (case SessionTokenKindAccessToken of
                 SessionTokenKindAccessToken \<Rightarrow> AccessToken fixtureSession
               | SessionTokenKindRefreshToken \<Rightarrow> RefreshToken fixtureSession)"
    by (simp_all add: fixtureSession_def)
  have cl: "ClientID fixtureSession = authContext ?p"
    by (simp add: fixtureSession_def test_provider_def)
  have cf: "map_of (clientConfigs ?p) (ClientID fixtureSession) = Some zero_ClientConfiguration"
    by (simp add: fixtureSession_def test_provider_def)
  have en: "\<not> Disabled zero_ClientConfiguration"
    by (simp add: zero_ClientConfiguration_def)
  have vals: "SessionIdleTimeout zero_ClientConfiguration = 0"
    "RefreshTokenLifetime zero_ClientConfiguration = 0"
    "AccessTokenLifetime zero_ClientConfiguration = 0"
    "time_NowUTC ?p - AccessTokenCreatedAt fixtureSession = 1000000"
    by (simp_all add: zero_ClientConfiguration_def test_provider_def fixtureSession_def)
  from GetByToken_expiry_dimensions [OF decodeToken_fixture_refresh st ra cl cf en]
  have r: "GetByToken ?p fixture_state ''session-id.refresh-token'' SessionTokenKindRefreshToken
             = Inr fixtureSession"
    by (simp add: vals)
  from GetByToken_expiry_dimensions [OF decodeToken_fixture_access st aa cl cf en]
  have a: "GetByToken ?p fixture_state ''session-id.access-token'' SessionTokenKindAccessToken
             \<noteq> Inr fixtureSession"
    by (simp add: vals)
  from r a show ?thesis by simp
qed

text \<open>
  The claim as it was stated fails at "should reject if session is expired": the client
  \<open>web-app\<close> exists, is not disabled and has an \<open>AccessTokenLifetime\<close> of zero, the token is
  the stored access token and is found at \<open>initialTime\<close>, and one million seconds later
  the lookup is \<open>ErrSessionNotFound\<close>.
\<close>

theorem zero_AccessTokenLifetime_counterexample:
  "map_of (clientConfigs (test_provider (initialTime + 1000000))) (ClientID fixtureSession)
      = Some zero_ClientConfiguration
   \<and> AccessTokenLifetime zero_ClientConfiguration = 0
   \<and> \<not> Disabled zero_ClientConfiguration
   \<and> map_of (Sessions fixture_state) ''session-id'' = Some fixtureSession
   \<and> AccessToken fixtureSession = ''session-id.access-token''
   \<and> GetByToken (test_provider initialTime) fixture_state
         ''session-id.access-token'' SessionTokenKindAccessToken = Inr fixtureSession
   \<and> GetByToken (test_provider (initialTime + 1000000)) fixture_state
         ''session-id.access-token'' SessionTokenKindAccessToken = Inl ErrSessionNotFound"
  by (simp add: fixture_simps decodeToken_fixture_access)

subsection \<open>Creation\<close>

text \<open>
  Claim C3, amended. For every successful \<open>Create(userID, principalID)\<close> at the time
  \<open>now\<close>, the session returned has \<open>CreatedAt = AccessedAt = AccessTokenCreatedAt = now\<close>,
  its \<open>InitialAccess\<close> is the access event built from \<open>now\<close> and the current request, its
  \<open>LastAccess\<close> is the zero value, the same event is appended to the Access Event Store,
  and the session is stored under its ID.
\<close>

theorem Create_stamps:
  assumes "Create p userID principalID st = (Inr s, st')"
  shows "CreatedAt s = time_NowUTC p \<and> AccessedAt s = time_NowUTC p
         \<and> AccessTokenCreatedAt s = time_NowUTC p
         \<and> InitialAccess s = newAccessEvent p (time_NowUTC p) (req p)
         \<and> LastAccess s = zero_AccessEvent
         \<and> AccessEvents st' = AccessEvents st @ [newAccessEvent p (time_NowUTC p) (req p)]
         \<and> map_of (Sessions st') (ID s) = Some s"
  using assms by (auto simp: Create_def Let_def update_conv')

theorem Create_stamps_witness:
  "CreatedAt (projr (fst (Create (test_provider initialTime) ''user-id'' ''principal-id'' empty_state)))
     = initialTime
   \<and> InitialAccess (projr (fst (Create (test_provider initialTime) ''user-id'' ''principal-id'' empty_state)))
     = test_accessEvent
   \<and> AccessEvents (snd (Create (test_provider initialTime) ''user-id'' ''principal-id'' empty_state))
     = [test_accessEvent]"
proof -
  let ?p = "test_provider initialTime"
  let ?c = "Create ?p ''user-id'' ''principal-id'' empty_state"
  have rq: "req ?p = test_req" and now: "time_NowUTC ?p = initialTime"
    by (simp_all add: test_provider_def)
  have c: "?c = (Inr (projr (fst ?c)), snd ?c)"
    by (simp add: Create_def Let_def)
  show ?thesis
    using Create_stamps [OF c] by (simp add: rq now test_newAccessEvent empty_state_def)
qed

text \<open>
  The claim as it was stated has \<open>LastAccess\<close> equal to the new access event. At the test's
  \<open>Create("user-id", "principal-id")\<close> the call succeeds, the session is the struct the
  test requires, \<open>InitialAccess\<close> is the event, and \<open>LastAccess\<close> is not.
\<close>

theorem Create_LastAccess_counterexample:
  "\<not> isl (fst (Create (test_provider initialTime) ''user-id'' ''principal-id'' empty_state))
   \<and> projr (fst (Create (test_provider initialTime) ''user-id'' ''principal-id'' empty_state))
       = expected_created
           (projr (fst (Create (test_provider initialTime) ''user-id'' ''principal-id'' empty_state)))
   \<and> InitialAccess (projr (fst (Create (test_provider initialTime) ''user-id'' ''principal-id'' empty_state)))
       = newAccessEvent (test_provider initialTime) initialTime test_req
   \<and> LastAccess (projr (fst (Create (test_provider initialTime) ''user-id'' ''principal-id'' empty_state)))
       \<noteq> newAccessEvent (test_provider initialTime) initialTime test_req"
proof -
  let ?p = "test_provider initialTime"
  have rq: "req ?p = test_req" and now: "time_NowUTC ?p = initialTime"
    and ac: "authContext ?p = ''web-app''"
    by (simp_all add: test_provider_def)
  have ne: "zero_AccessEvent \<noteq> test_accessEvent"
    by (simp add: test_accessEvent_def zero_AccessEvent_def)
  show ?thesis
    by (simp add: Create_def Let_def rq now ac test_newAccessEvent ne expected_created_def)
qed

end
